theory Spec2Isabelle
  imports Complex_Main
begin

section \<open>Data model\<close>

text \<open>
  The notebook \<^verbatim>\<open>nb/tree.ipynb\<close> runs under Python 2 against Spark 1.3. A raw record is
  a row of the table \<^verbatim>\<open>german_parquet\<close>; \<^verbatim>\<open>x.asDict()\<close> turns it into a dictionary from
  field names to integers, modelled as a partial map. A \<^verbatim>\<open>LabeledPoint\<close> is a pair of a
  label and a feature vector. Spark stores both as floating-point numbers; the integers of
  the table convert exactly, so the model keeps them as integers.
\<close>

type_synonym row = "string \<rightharpoonup> int"

record LabeledPoint =
  label :: int
  features :: "int list"

text \<open>
  The exceptions the modelled cells can raise: a dictionary subscript with a missing key,
  a float division by zero, and a failure inside the training collaborator.
\<close>

datatype error = KeyError string | ZeroDivisionError | TrainingFailure

text \<open>\<^verbatim>\<open>vals[k]\<close>: the value stored under \<open>k\<close>, or \<^verbatim>\<open>KeyError(k)\<close>.\<close>

definition getitem :: "row \<Rightarrow> string \<Rightarrow> error + int" where
  "getitem vals k = (case vals k of None \<Rightarrow> Inl (KeyError k) | Some v \<Rightarrow> Inr v)"

text \<open>Sequencing of two computations that may raise: the first error wins.\<close>

definition and_then :: "'e + 'a \<Rightarrow> ('a \<Rightarrow> 'e + 'b) \<Rightarrow> 'e + 'b" where
  "and_then m f = (case m of Inl e \<Rightarrow> Inl e | Inr v \<Rightarrow> f v)"

section \<open>The record transformer\<close>

text \<open>
  \<^verbatim>\<open>german_lp\<close> (cell 4 of the notebook). Python evaluates \<^verbatim>\<open>vals['cred']\<close> first and then
  the elements of the list display from left to right, so the subscripts are sequenced in
  that order; the subtraction of 1 cannot fail on integers.
\<close>

definition german_lp :: "row \<Rightarrow> error + LabeledPoint" where
  "german_lp x =
    (let vals = x in
     and_then (getitem vals ''cred'') (\<lambda>label.
     and_then (getitem vals ''acct_bal'') (\<lambda>acct_bal.
     and_then (getitem vals ''dur_cred'') (\<lambda>dur_cred.
     and_then (getitem vals ''pay_stat'') (\<lambda>pay_stat.
     and_then (getitem vals ''purpose'') (\<lambda>purpose.
     and_then (getitem vals ''cred_amt'') (\<lambda>cred_amt.
     and_then (getitem vals ''value'') (\<lambda>value.
     and_then (getitem vals ''len_emp'') (\<lambda>len_emp.
     and_then (getitem vals ''install_pc'') (\<lambda>install_pc.
     and_then (getitem vals ''sex_married'') (\<lambda>sex_married.
     and_then (getitem vals ''guarantors'') (\<lambda>guarantors.
     and_then (getitem vals ''dur_addr'') (\<lambda>dur_addr.
     and_then (getitem vals ''max_val'') (\<lambda>max_val.
     and_then (getitem vals ''age'') (\<lambda>age.
     and_then (getitem vals ''concurr'') (\<lambda>concurr.
     and_then (getitem vals ''typ_aprtmnt'') (\<lambda>typ_aprtmnt.
     and_then (getitem vals ''no_creds'') (\<lambda>no_creds.
     and_then (getitem vals ''occupation'') (\<lambda>occupation.
     and_then (getitem vals ''no_dep'') (\<lambda>no_dep.
     and_then (getitem vals ''telephone'') (\<lambda>telephone.
     and_then (getitem vals ''foreign_wkr'') (\<lambda>foreign_wkr.
       Inr \<lparr>label = label,
            features = [acct_bal - 1,
                        dur_cred,
                        pay_stat,
                        purpose,
                        cred_amt,
                        value - 1,
                        len_emp - 1,
                        install_pc - 1,
                        sex_married - 1,
                        guarantors - 1,
                        dur_addr - 1,
                        max_val - 1,
                        age,
                        concurr - 1,
                        typ_aprtmnt - 1,
                        no_creds - 1,
                        occupation - 1,
                        no_dep - 1,
                        telephone - 1,
                        foreign_wkr - 1]\<rparr>))))))))))))))))))))))"

text \<open>
  The keys \<^verbatim>\<open>german_lp\<close> subscripts: the label field, and the twenty feature fields in the
  order of the list display.
\<close>

definition label_field :: string where
  "label_field = ''cred''"

definition feature_fields :: "string list" where
  "feature_fields =
    [''acct_bal'', ''dur_cred'', ''pay_stat'', ''purpose'', ''cred_amt'', ''value'',
     ''len_emp'', ''install_pc'', ''sex_married'', ''guarantors'', ''dur_addr'',
     ''max_val'', ''age'', ''concurr'', ''typ_aprtmnt'', ''no_creds'', ''occupation'',
     ''no_dep'', ''telephone'', ''foreign_wkr'']"

definition required_fields :: "string list" where
  "required_fields = label_field # feature_fields"

section \<open>The categorical feature registry\<close>

text \<open>
  \<^verbatim>\<open>german_cfi\<close> (cell 5): a dictionary literal with distinct keys, kept as the list of its
  items in the order written.
\<close>

definition german_cfi :: "(int \<times> int) list" where
  "german_cfi =
    [(0, 4), (5, 5), (6, 5), (7, 4), (8, 4), (9, 3), (10, 4), (11, 4), (13, 3), (14, 3),
     (15, 4), (16, 4), (17, 2), (18, 2), (19, 2)]"

text \<open>The record of the spec's end-to-end scenario.\<close>

definition scenario_record :: row where
  "scenario_record = map_of
    [(''acct_bal'', 1), (''dur_cred'', 6), (''pay_stat'', 4), (''purpose'', 2),
     (''cred_amt'', 1169), (''value'', 5), (''len_emp'', 5), (''install_pc'', 4),
     (''sex_married'', 3), (''guarantors'', 1), (''dur_addr'', 4), (''max_val'', 2),
     (''age'', 67), (''concurr'', 3), (''typ_aprtmnt'', 2), (''no_creds'', 2),
     (''occupation'', 3), (''no_dep'', 1), (''telephone'', 2), (''foreign_wkr'', 1),
     (''cred'', 1)]"

text \<open>
  A second record with every required field present: the scenario record with the raw
  value 0 stored under \<^verbatim>\<open>acct_bal\<close>.
\<close>

definition zero_balance_record :: row where
  "zero_balance_record = scenario_record(''acct_bal'' \<mapsto> 0)"

section \<open>The hyperparameter sweep\<close>

text \<open>
  The training collaborator (\<^verbatim>\<open>DecisionTree.trainClassifier\<close> of Spark MLlib) is not part
  of the repository: the sweep takes it as a parameter. A trained model offers
  \<^verbatim>\<open>predict\<close>, \<^verbatim>\<open>depth()\<close> and \<^verbatim>\<open>numNodes()\<close>; the keyword arguments of the call in the
  sweep cell are the fields of \<open>trainClassifier_args\<close>. A trainer that raises returns
  \<open>None\<close>.
\<close>

record DecisionTreeModel =
  predict :: "int list \<Rightarrow> int"
  depth :: int
  numNodes :: int

record trainClassifier_args =
  data :: "LabeledPoint list"
  numClasses :: int
  categoricalFeaturesInfo :: "(int \<times> int) list"
  impurity :: string
  minInstancesPerNode :: int
  maxDepth :: int

type_synonym trainer = "trainClassifier_args \<Rightarrow> DecisionTreeModel option"

text \<open>
  \<^verbatim>\<open>lp.randomSplit(weights)\<close> is a method of the Spark collaborator as well, and it draws a
  fresh seed at every call. The sweep takes it as a parameter that reads and advances an
  explicit generator state \<open>'g\<close>; unpacking its result into \<^verbatim>\<open>(lp_train, lp_val)\<close> makes
  it a pair.
\<close>

type_synonym 'g splitter =
  "'g \<Rightarrow> rat list \<Rightarrow> LabeledPoint list \<Rightarrow> (LabeledPoint list \<times> LabeledPoint list) \<times> 'g"

text \<open>One row of the table \<^verbatim>\<open>val_dat\<close>; the fields are the columns \<^verbatim>\<open>obs\<close>, \<^verbatim>\<open>max_depth\<close>,
  \<^verbatim>\<open>num_nodes\<close>, \<^verbatim>\<open>train_err\<close> and \<^verbatim>\<open>val_err\<close> of the data frame.\<close>

record val_dat_row =
  col_obs :: int
  col_max_depth :: int
  col_num_nodes :: int
  col_train_err :: rat
  col_val_err :: rat

text \<open>
  \<^verbatim>\<open>n / float(d)\<close> on two counts: Python raises \<^verbatim>\<open>ZeroDivisionError\<close> when \<open>d\<close> is zero.
  The quotient is kept as an exact rational; the rounding of the floating-point division
  is not modelled (the quotients 0 and 1 are exact in either).
\<close>

definition truediv :: "nat \<Rightarrow> nat \<Rightarrow> error + rat" where
  "truediv n d = (if d = 0 then Inl ZeroDivisionError else Inr (of_nat n / of_nat d))"

text \<open>
  Lines 269 to 272 of the sweep cell, for one partition: \<open>te\<close> zips the labels with the
  predictions, and the error is the count of the pairs that differ over the count of all
  pairs. The spec names this computation \<^verbatim>\<open>misclassification_rate\<close>.
\<close>

definition misclassification_rate :: "DecisionTreeModel \<Rightarrow> LabeledPoint list \<Rightarrow> error + rat" where
  "misclassification_rate model examples =
    (let te = zip (map label examples) (map (predict model) (map features examples))
     in truediv (length (filter (\<lambda>(v, p). v \<noteq> p) te)) (length te))"

text \<open>
  The sweep cell keeps its table in the notebook variable \<^verbatim>\<open>val_dat\<close> and appends to it in
  place, and nothing in the cell catches an exception. An exception therefore leaves behind
  the rows appended before it. A step of the cell ends either normally in a new state
  (\<open>Inr\<close>) or with an exception, paired with the state it leaves behind (\<open>Inl\<close>). The state
  is the generator and the table.
\<close>

type_synonym 's step = "error \<times> 's + 's"

text \<open>
  The body of the inner loop. The split comes first, so the generator has advanced when
  the trainer or an error rate raises; the table is then as the iteration found it.
\<close>

definition sweep_iteration ::
  "'g splitter \<Rightarrow> trainer \<Rightarrow> LabeledPoint list \<Rightarrow> int \<Rightarrow> int \<Rightarrow>
   'g \<times> val_dat_row list \<Rightarrow> ('g \<times> val_dat_row list) step" where
  "sweep_iteration randomSplit trainClassifier lp obs max_depth st =
    (let (g, val_dat) = st;
         ((lp_train, lp_val), g') = randomSplit g [8 / 10, 2 / 10] lp
     in case trainClassifier
              \<lparr>data = lp_train, numClasses = 2, categoricalFeaturesInfo = german_cfi,
               impurity = ''gini'', minInstancesPerNode = 10, maxDepth = max_depth\<rparr> of
          None \<Rightarrow> Inl (TrainingFailure, (g', val_dat))
        | Some model \<Rightarrow>
            (case misclassification_rate model lp_train of
               Inl e \<Rightarrow> Inl (e, (g', val_dat))
             | Inr train_err \<Rightarrow>
                 (case misclassification_rate model lp_val of
                    Inl e \<Rightarrow> Inl (e, (g', val_dat))
                  | Inr val_err \<Rightarrow>
                      Inr (g', val_dat @
                        [\<lparr>col_obs = obs, col_max_depth = depth model,
                          col_num_nodes = numNodes model, col_train_err = train_err,
                          col_val_err = val_err\<rparr>]))))"

text \<open>
  A \<^verbatim>\<open>for\<close> loop over a list: the first exception ends it, with the state that the failing
  step leaves behind.
\<close>

fun for_each :: "('a \<Rightarrow> 's \<Rightarrow> 's step) \<Rightarrow> 'a list \<Rightarrow> 's \<Rightarrow> 's step" where
  "for_each body [] s = Inr s"
| "for_each body (x # xs) s = and_then (body x s) (for_each body xs)"

text \<open>Python's \<^verbatim>\<open>range(a, b)\<close>.\<close>

definition py_range :: "int \<Rightarrow> int \<Rightarrow> int list" where
  "py_range a b = [a..b - 1]"

text \<open>
  The sweep cell: its first line makes \<^verbatim>\<open>val_dat\<close> an empty table, and the loops nest as in
  the source.
\<close>

definition sweep ::
  "'g splitter \<Rightarrow> trainer \<Rightarrow> LabeledPoint list \<Rightarrow> 'g \<Rightarrow> ('g \<times> val_dat_row list) step" where
  "sweep randomSplit trainClassifier lp g =
    for_each (\<lambda>obs.
      for_each (\<lambda>max_depth. sweep_iteration randomSplit trainClassifier lp obs max_depth)
        (py_range 2 8))
      (py_range 0 30) (g, [])"

section \<open>Specification vocabulary for the sweep\<close>

text \<open>
  The generator state in which iteration \<open>k\<close> of the sweep starts, counting from 0: every
  iteration before it has called the splitter once.
\<close>

fun generator_before :: "'g splitter \<Rightarrow> LabeledPoint list \<Rightarrow> 'g \<Rightarrow> nat \<Rightarrow> 'g" where
  "generator_before randomSplit lp g 0 = g"
| "generator_before randomSplit lp g (Suc k) =
     snd (randomSplit (generator_before randomSplit lp g k) [8 / 10, 2 / 10] lp)"

text \<open>
  What the row of an iteration must be, for the generator state \<open>g\<close> in which the iteration
  starts, the trial index \<open>fst od\<close> and the depth candidate \<open>snd od\<close>: the splitter called in
  \<open>g\<close> returned the partitions, the trainer returned a model for the train partition and
  that candidate, and the row holds the trial index, the depth and node count of that
  model, and its error rates on the two partitions.
\<close>

definition iteration_row ::
  "'g splitter \<Rightarrow> trainer \<Rightarrow> LabeledPoint list \<Rightarrow> 'g \<Rightarrow> int \<times> int \<Rightarrow> val_dat_row \<Rightarrow> bool" where
  "iteration_row randomSplit trainClassifier lp g od r =
    (\<exists>lp_train lp_val g' model.
       randomSplit g [8 / 10, 2 / 10] lp = ((lp_train, lp_val), g') \<and>
       trainClassifier
         \<lparr>data = lp_train, numClasses = 2, categoricalFeaturesInfo = german_cfi,
          impurity = ''gini'', minInstancesPerNode = 10, maxDepth = snd od\<rparr> = Some model \<and>
       col_obs r = fst od \<and>
       col_max_depth r = depth model \<and>
       col_num_nodes r = numNodes model \<and>
       misclassification_rate model lp_train = Inr (col_train_err r) \<and>
       misclassification_rate model lp_val = Inr (col_val_err r))"

text \<open>
  Nothing fails in the iteration that starts in generator state \<open>g\<close> with depth candidate
  \<open>d\<close>: its split gives two non-empty partitions and the trainer returns a model for the
  call the iteration makes.
\<close>

definition iteration_succeeds ::
  "'g splitter \<Rightarrow> trainer \<Rightarrow> LabeledPoint list \<Rightarrow> 'g \<Rightarrow> int \<Rightarrow> bool" where
  "iteration_succeeds randomSplit trainClassifier lp g d =
    (let ((lp_train, lp_val), g') = randomSplit g [8 / 10, 2 / 10] lp
     in lp_train \<noteq> [] \<and> lp_val \<noteq> [] \<and>
        trainClassifier
          \<lparr>data = lp_train, numClasses = 2, categoricalFeaturesInfo = german_cfi,
           impurity = ''gini'', minInstancesPerNode = 10, maxDepth = d\<rparr> \<noteq> None)"

text \<open>
  The keys of a registry are positions of a feature vector with \<open>feature_count\<close> slots.
\<close>

definition categorical_indices_valid :: "nat \<Rightarrow> (int \<times> int) list \<Rightarrow> bool" where
  "categorical_indices_valid feature_count cfi =
    list_all (\<lambda>(i, n). 0 \<le> i \<and> i < int feature_count) cfi"

text \<open>
  A trainer that refuses (as a failed training) every call whose registry has a key out of
  range, and otherwise behaves as the given one. A sweep that never makes such a call
  cannot tell the two apart.
\<close>

definition checked :: "nat \<Rightarrow> trainer \<Rightarrow> trainer" where
  "checked feature_count trainClassifier args =
    (if categorical_indices_valid feature_count (categoricalFeaturesInfo args)
     then trainClassifier args else None)"

section \<open>The random split of the spec\<close>

text \<open>
  Modelled from the spec: \<^verbatim>\<open>random_split(examples, train_fraction, seed)\<close>, which the
  notebook calls as \<^verbatim>\<open>lp.randomSplit([0.8, 0.2])\<close>. Its body belongs to Spark and is not in
  the repository. The spec has it split a dataset into a train and a validation partition
  by random draws that depend on a seed chosen anew at every call. The model draws one
  number per example from the generator \<open>uniform\<close> under the given seed and sends the
  example to the train partition when its draw is below the train fraction, to the
  validation partition otherwise.
\<close>

definition random_split ::
  "(nat \<Rightarrow> nat \<Rightarrow> rat) \<Rightarrow> 'a list \<Rightarrow> rat \<Rightarrow> nat \<Rightarrow> 'a list \<times> 'a list" where
  "random_split uniform examples train_fraction seed =
    (let drawn = zip (map (uniform seed) [0..<length examples]) examples;
         (train_set, val_set) = partition (\<lambda>(u, e). u < train_fraction) drawn
     in (map snd train_set, map snd val_set))"

section \<open>Concrete inputs\<close>

text \<open>
  A model that predicts class 1 for every feature vector, a trainer that always returns
  it, two splitters that draw nothing (one sends every example to the train partition, the
  other the first example only), and datasets of one and two labeled examples.
\<close>

definition constant_model :: DecisionTreeModel where
  "constant_model = \<lparr>predict = (\<lambda>feats. 1), depth = 0, numNodes = 1\<rparr>"

definition constant_trainer :: trainer where
  "constant_trainer args = Some constant_model"

text \<open>A trainer that returns the constant model below depth candidate 5 and fails from 5 on.\<close>

definition shallow_trainer :: trainer where
  "shallow_trainer args = (if maxDepth args < 5 then Some constant_model else None)"

definition all_train_split :: "unit splitter" where
  "all_train_split g weights lp = ((lp, []), g)"

definition first_rest_split :: "unit splitter" where
  "first_rest_split g weights lp = ((take 1 lp, drop 1 lp), g)"

definition scenario_point :: LabeledPoint where
  "scenario_point =
    \<lparr>label = 1,
     features = [0, 6, 4, 2, 1169, 4, 4, 3, 2, 0, 3, 1, 67, 2, 1, 1, 2, 0, 1, 0]\<rparr>"

definition one_example :: "LabeledPoint list" where
  "one_example = [scenario_point]"

definition two_examples :: "LabeledPoint list" where
  "two_examples = [scenario_point, scenario_point\<lparr>label := 0\<rparr>]"

section \<open>Properties of the transformer\<close>

lemma and_then_getitem_Some:
  "vals k = Some v \<Longrightarrow> and_then (getitem vals k) f = f v"
  by (simp add: and_then_def getitem_def)

lemma and_then_getitem_None:
  "vals k = None \<Longrightarrow> and_then (getitem vals k) f = Inl (KeyError k)"
  by (simp add: and_then_def getitem_def)

lemma and_then_getitem_dom:
  "k \<in> dom vals \<Longrightarrow> and_then (getitem vals k) f = f (the (vals k))"
  by (auto simp: and_then_def getitem_def)

lemma and_then_getitem_InlE:
  assumes "and_then (getitem vals k) f = Inl e"
  obtains "vals k = None" and "e = KeyError k"
  | v where "vals k = Some v" and "f v = Inl e"
  using assms by (cases "vals k") (auto simp: and_then_def getitem_def)

lemma and_then_getitem_InrE:
  assumes "and_then (getitem vals k) f = Inr r"
  obtains v where "vals k = Some v" and "f v = Inr r"
  using assms by (cases "vals k") (auto simp: and_then_def getitem_def)

text \<open>With every key present the chain of subscripts runs through.\<close>

lemma german_lp_present:
  assumes "set required_fields \<subseteq> dom x"
  shows "german_lp x =
      Inr \<lparr>label = the (x ''cred''),
           features = [the (x ''acct_bal'') - 1, the (x ''dur_cred''), the (x ''pay_stat''),
             the (x ''purpose''), the (x ''cred_amt''), the (x ''value'') - 1,
             the (x ''len_emp'') - 1, the (x ''install_pc'') - 1, the (x ''sex_married'') - 1,
             the (x ''guarantors'') - 1, the (x ''dur_addr'') - 1, the (x ''max_val'') - 1,
             the (x ''age''), the (x ''concurr'') - 1, the (x ''typ_aprtmnt'') - 1,
             the (x ''no_creds'') - 1, the (x ''occupation'') - 1, the (x ''no_dep'') - 1,
             the (x ''telephone'') - 1, the (x ''foreign_wkr'') - 1]\<rparr>"
proof -
  have "\<forall>k \<in> set required_fields. k \<in> dom x"
    using assms by blast
  then show ?thesis
    unfolding german_lp_def Let_def
    by (simp add: required_fields_def label_field_def feature_fields_def and_then_getitem_dom)
qed

text \<open>An error of the transformer is the \<^verbatim>\<open>KeyError\<close> of a required key that is missing.\<close>

lemma german_lp_Inl:
  assumes "german_lp x = Inl e"
  shows "\<exists>k \<in> set required_fields. e = KeyError k \<and> x k = None"
  using assms unfolding german_lp_def Let_def
  apply (elim and_then_getitem_InlE)
  apply (simp_all add: required_fields_def label_field_def feature_fields_def)
  done

lemma german_lp_Inr_present:
  assumes "german_lp x = Inr p"
  shows "set required_fields \<subseteq> dom x"
  using assms unfolding german_lp_def Let_def
  apply (elim and_then_getitem_InrE)
  apply (simp add: required_fields_def label_field_def feature_fields_def dom_def)
  done

lemma scenario_record_dom: "set required_fields \<subseteq> dom scenario_record"
  by (simp add: required_fields_def label_field_def feature_fields_def scenario_record_def)

lemma zero_balance_record_dom: "set required_fields \<subseteq> dom zero_balance_record"
  by (simp add: required_fields_def label_field_def feature_fields_def
      zero_balance_record_def scenario_record_def)

lemma nat_less_20_cases:
  "(i::nat) < 20 \<Longrightarrow> i \<in> {0,1,2,3,4,5,6,7,8,9,10,11,12,13,14,15,16,17,18,19}"
  by simp arith

text \<open>
  Every slot of the feature vector is the raw value of its field, less 1 exactly at the
  positions that are keys of the registry.
\<close>

lemma german_lp_slot:
  assumes "german_lp x = Inr p" and "i < 20"
  shows "features p ! i =
    the (x (feature_fields ! i)) - (if int i \<in> set (map fst german_cfi) then 1 else 0)"
proof -
  note p = german_lp_present [OF german_lp_Inr_present [OF assms(1)]]
  have i: "i \<in> {0,1,2,3,4,5,6,7,8,9,10,11,12,13,14,15,16,17,18,19}"
    using assms(2) by (rule nat_less_20_cases)
  show ?thesis
    using i assms(1) unfolding p
    by (elim insertE emptyE; auto simp add: feature_fields_def german_cfi_def)
qed

lemma german_cfi_keys:
  "set (map fst german_cfi) = {0, 5, 6, 7, 8, 9, 10, 11, 13, 14, 15, 16, 17, 18, 19}"
  by (simp add: german_cfi_def)

lemma german_cfi_key_bounds:
  assumes "(i, n) \<in> set german_cfi"
  shows "0 \<le> i" and "i < 20" and "2 \<le> n"
  using assms by (auto simp: german_cfi_def)

subsection \<open>The end-to-end scenario\<close>

text \<open>
  Claim C1. For the raw record of the spec's end-to-end scenario, with label field
  \<^verbatim>\<open>cred\<close>, the transformer returns the labeled example with label 1 and the feature vector
  [0,6,4,2,1169,4,4,3,2,0,3,1,67,2,1,1,2,0,1,0].
\<close>

theorem german_lp_scenario:
  "german_lp scenario_record =
    Inr \<lparr>label = 1,
         features = [0, 6, 4, 2, 1169, 4, 4, 3, 2, 0, 3, 1, 67, 2, 1, 1, 2, 0, 1, 0]\<rparr>"
  by (simp add: german_lp_def scenario_record_def and_then_def getitem_def)

subsection \<open>Length of the feature vector\<close>

text \<open>
  Claim C6. For every raw record with all required fields present the transformer returns
  a labeled example whose feature vector has length 20: the 21 fields the transformer
  reads, less the label field \<^verbatim>\<open>cred\<close>.
\<close>

theorem german_lp_feature_count:
  assumes "set required_fields \<subseteq> dom x"
  shows "\<exists>p. german_lp x = Inr p \<and> length (features p) = 20 \<and>
    length (features p) = length required_fields - 1"
  using german_lp_present [OF assms]
  by (simp add: required_fields_def feature_fields_def)

theorem german_lp_feature_count_witness:
  "set required_fields \<subseteq> dom scenario_record \<and>
   (\<exists>p. german_lp scenario_record = Inr p \<and> length (features p) = 20)"
  using german_lp_feature_count [OF scenario_record_dom] scenario_record_dom by blast

subsection \<open>Missing fields\<close>

text \<open>
  Claim C8. The transformer fails with a missing-key error when a required field (one of
  the 20 feature fields or the label field \<^verbatim>\<open>cred\<close>) is absent from the record, the key of
  the error being a required field the record lacks, and it succeeds otherwise. It is a
  function of the record alone: the model has no state for it to read or change.
\<close>

theorem german_lp_schema_error:
  "(set required_fields \<subseteq> dom x \<longrightarrow> (\<exists>p. german_lp x = Inr p)) \<and>
   (\<not> set required_fields \<subseteq> dom x \<longrightarrow>
      (\<exists>k \<in> set required_fields. k \<notin> dom x \<and> german_lp x = Inl (KeyError k)))"
proof (intro conjI impI)
  assume "set required_fields \<subseteq> dom x"
  then show "\<exists>p. german_lp x = Inr p"
    using german_lp_present by blast
next
  assume missing: "\<not> set required_fields \<subseteq> dom x"
  show "\<exists>k \<in> set required_fields. k \<notin> dom x \<and> german_lp x = Inl (KeyError k)"
  proof (cases "german_lp x")
    case (Inl e)
    then show ?thesis
      using german_lp_Inl [OF Inl] by (auto simp: dom_def)
  next
    case (Inr p)
    then show ?thesis
      using german_lp_Inr_present missing by blast
  qed
qed

theorem german_lp_schema_error_witness:
  "(\<exists>p. german_lp scenario_record = Inr p) \<and>
   (\<exists>k. k \<notin> dom (scenario_record(''age'' := None)) \<and>
      german_lp (scenario_record(''age'' := None)) = Inl (KeyError k))"
proof -
  have "\<not> set required_fields \<subseteq> dom (scenario_record(''age'' := None))"
    by (simp add: required_fields_def feature_fields_def)
  then show ?thesis
    using german_lp_schema_error [of scenario_record]
      german_lp_schema_error [of "scenario_record(''age'' := None)"] scenario_record_dom
    by blast
qed

subsection \<open>Sign of the categorical features\<close>

text \<open>
  Claim C5 says that for every raw record with all required fields present the features at
  the registered categorical positions are at least 0. It fails for a record that stores
  0 under \<^verbatim>\<open>acct_bal\<close>: the feature at position 0 is -1.
\<close>

theorem german_lp_zero_balance_negative:
  "german_lp zero_balance_record =
     Inr \<lparr>label = 1,
          features = [- 1, 6, 4, 2, 1169, 4, 4, 3, 2, 0, 3, 1, 67, 2, 1, 1, 2, 0, 1, 0]\<rparr> \<and>
   [- 1, 6, 4, 2, 1169, 4, 4, 3, 2, 0, 3, 1, 67, 2, 1, 1, 2, 0, 1, 0 :: int] ! 0 < 0"
  by (simp add: german_lp_def zero_balance_record_def scenario_record_def and_then_def
      getitem_def)

text \<open>
  Claim C5, amended. For every raw record with all required fields present, the feature at
  each registered categorical position is the raw value of its field minus 1; it is at
  least 0 exactly when the raw value is at least 1.
\<close>

theorem german_lp_categorical_nonneg:
  assumes "set required_fields \<subseteq> dom x" and "(i, n) \<in> set german_cfi"
  shows "\<exists>p. german_lp x = Inr p \<and>
    features p ! nat i = the (x (feature_fields ! nat i)) - 1 \<and>
    (0 \<le> features p ! nat i \<longleftrightarrow> 1 \<le> the (x (feature_fields ! nat i)))"
proof -
  obtain p where p: "german_lp x = Inr p"
    using german_lp_present [OF assms(1)] by blast
  have "0 \<le> i" and "i < 20" and key: "i \<in> set (map fst german_cfi)"
    using assms(2) german_cfi_key_bounds [OF assms(2)] by force+
  then have "nat i < 20" and "int (nat i) \<in> set (map fst german_cfi)"
    by simp_all
  then have "features p ! nat i = the (x (feature_fields ! nat i)) - 1"
    using german_lp_slot [OF p, of "nat i"] by simp
  then show ?thesis
    using p by auto
qed

theorem german_lp_categorical_nonneg_witness:
  "set required_fields \<subseteq> dom scenario_record \<and> (5, 5) \<in> set german_cfi \<and>
   (\<exists>p. german_lp scenario_record = Inr p \<and> features p ! nat 5 = 4 \<and> 0 \<le> features p ! nat 5)"
proof -
  have k: "(5, 5) \<in> set german_cfi"
    by (simp add: german_cfi_def)
  have v: "the (scenario_record (feature_fields ! nat 5)) = 5"
    by (simp add: feature_fields_def scenario_record_def)
  show ?thesis
    using german_lp_categorical_nonneg [OF scenario_record_dom k] scenario_record_dom k
    unfolding v by auto
qed

subsection \<open>Adjusted slots and the registry\<close>

text \<open>
  Claim C10. The feature positions at which the transformer subtracts 1 from the raw field
  value are exactly 0, 5, 6, 7, 8, 9, 10, 11, 13, 14, 15, 16, 17, 18 and 19, the keys of
  the registry: a slot holds the raw value minus 1 if and only if it is registered as
  categorical, and the slots that hold the raw value unchanged are 1, 2, 3, 4 and 12, the
  positions missing from the registry.
\<close>

theorem minus_one_iff_categorical:
  "set (map fst german_cfi) = {0, 5, 6, 7, 8, 9, 10, 11, 13, 14, 15, 16, 17, 18, 19} \<and>
   [i \<leftarrow> [0..19]. i \<notin> set (map fst german_cfi)] = [1, 2, 3, 4, 12] \<and>
   (\<forall>x p i. german_lp x = Inr p \<longrightarrow> i < 20 \<longrightarrow>
      (features p ! i = the (x (feature_fields ! i)) - 1
         \<longleftrightarrow> int i \<in> set (map fst german_cfi)) \<and>
      (features p ! i = the (x (feature_fields ! i))
         \<longleftrightarrow> int i \<notin> set (map fst german_cfi)))"
proof (intro conjI allI impI)
  show "set (map fst german_cfi) = {0, 5, 6, 7, 8, 9, 10, 11, 13, 14, 15, 16, 17, 18, 19}"
    by (rule german_cfi_keys)
  show "[i \<leftarrow> [0..19]. i \<notin> set (map fst german_cfi)] = [1, 2, 3, 4, 12]"
    by (simp add: german_cfi_def upto.simps)
next
  fix x p and i :: nat
  assume p: "german_lp x = Inr p" and i: "i < 20"
  show "features p ! i = the (x (feature_fields ! i)) - 1
      \<longleftrightarrow> int i \<in> set (map fst german_cfi)"
    using german_lp_slot [OF p i] by (simp split: if_splits)
  show "features p ! i = the (x (feature_fields ! i))
      \<longleftrightarrow> int i \<notin> set (map fst german_cfi)"
    using german_lp_slot [OF p i] by (simp split: if_splits)
qed

theorem minus_one_iff_categorical_witness:
  "german_lp scenario_record =
     Inr \<lparr>label = 1,
          features = [0, 6, 4, 2, 1169, 4, 4, 3, 2, 0, 3, 1, 67, 2, 1, 1, 2, 0, 1, 0]\<rparr> \<and>
   int 6 \<in> set (map fst german_cfi) \<and> the (scenario_record (feature_fields ! 6)) - 1 = 4 \<and>
   int 12 \<notin> set (map fst german_cfi) \<and> the (scenario_record (feature_fields ! 12)) = 67"
proof -
  let ?p = "\<lparr>label = 1,
      features = [0, 6, 4, 2, 1169, 4, 4, 3, 2, 0, 3, 1, 67, 2, 1, 1, 2, 0, 1, 0]\<rparr>"
  have p: "german_lp scenario_record = Inr ?p"
    by (simp add: german_lp_def scenario_record_def and_then_def getitem_def)
  have a: "features ?p ! 6 = 4" and b: "features ?p ! 12 = 67"
    by simp_all
  have six: "(6::nat) < 20" and twelve: "(12::nat) < 20"
    by simp_all
  from minus_one_iff_categorical
  have slots: "\<And>i. i < 20 \<Longrightarrow>
      (features ?p ! i = the (scenario_record (feature_fields ! i)) - 1
         \<longleftrightarrow> int i \<in> set (map fst german_cfi)) \<and>
      (features ?p ! i = the (scenario_record (feature_fields ! i))
         \<longleftrightarrow> int i \<notin> set (map fst german_cfi))"
    using p by blast
  have k6: "int 6 \<in> set (map fst german_cfi)" and k12: "int 12 \<notin> set (map fst german_cfi)"
    by (simp_all add: german_cfi_def)
  show ?thesis
    using p slots [OF six] slots [OF twelve] k6 k12 a b by metis
qed

section \<open>Properties of the sweep\<close>

subsection \<open>The error rate\<close>

lemma count_disagreements:
  "length (filter (\<lambda>(v, p). v \<noteq> p) (zip (map label examples) (map (predict model) (map features examples)))) =
   length (filter (\<lambda>e. predict model (features e) \<noteq> label e) examples)"
  by (induction examples) auto

lemma misclassification_rate_eq:
  "misclassification_rate model examples =
     truediv (length (filter (\<lambda>e. predict model (features e) \<noteq> label e) examples)) (length examples)"
  unfolding misclassification_rate_def Let_def count_disagreements by simp

lemma misclassification_rate_Inl:
  "misclassification_rate model examples = Inl e \<longleftrightarrow> e = ZeroDivisionError \<and> examples = []"
  by (auto simp: misclassification_rate_eq truediv_def)

text \<open>
  Claim C3 says that for every model and every list of labeled examples the error rate is
  the number of disagreeing predictions over the number of examples, 0 when every
  prediction matches and 1 when every prediction differs. On the empty list every
  prediction matches, and the division raises instead of giving 0.
\<close>

theorem misclassification_rate_empty:
  "misclassification_rate constant_model [] = Inl ZeroDivisionError \<and>
   misclassification_rate constant_model [] \<noteq> Inr 0"
  by (simp add: misclassification_rate_def truediv_def)

text \<open>
  Claim C3, amended. For every model and every non-empty list of labeled examples
  \<^verbatim>\<open>misclassification_rate\<close> returns the number of examples whose predicted label disagrees
  with the true label divided by the number of examples; it returns 0 when the prediction
  matches the label for every example and 1 when every prediction differs from its label.
\<close>

theorem misclassification_rate_ratio:
  assumes "examples \<noteq> []"
  shows "misclassification_rate model examples =
      Inr (of_nat (length (filter (\<lambda>e. predict model (features e) \<noteq> label e) examples)) /
           of_nat (length examples)) \<and>
    ((\<forall>e \<in> set examples. predict model (features e) = label e) \<longrightarrow>
       misclassification_rate model examples = Inr 0) \<and>
    ((\<forall>e \<in> set examples. predict model (features e) \<noteq> label e) \<longrightarrow>
       misclassification_rate model examples = Inr 1)"
proof (intro conjI impI)
  show ratio: "misclassification_rate model examples =
      Inr (of_nat (length (filter (\<lambda>e. predict model (features e) \<noteq> label e) examples)) /
           of_nat (length examples))"
    using assms by (simp add: misclassification_rate_eq truediv_def)
  {
    assume "\<forall>e \<in> set examples. predict model (features e) = label e"
    then have "filter (\<lambda>e. predict model (features e) \<noteq> label e) examples = []"
      by (simp add: filter_empty_conv)
    then show "misclassification_rate model examples = Inr 0"
      unfolding ratio by simp
  }
  {
    assume "\<forall>e \<in> set examples. predict model (features e) \<noteq> label e"
    then have "filter (\<lambda>e. predict model (features e) \<noteq> label e) examples = examples"
      by (simp add: filter_id_conv)
    then show "misclassification_rate model examples = Inr 1"
      unfolding ratio using assms by simp
  }
qed

theorem misclassification_rate_ratio_witness:
  "two_examples \<noteq> [] \<and> misclassification_rate constant_model two_examples = Inr (1 / 2) \<and>
   misclassification_rate constant_model one_example = Inr 0 \<and>
   misclassification_rate constant_model [scenario_point\<lparr>label := 0\<rparr>] = Inr 1"
proof -
  have a: "two_examples \<noteq> []" and b: "one_example \<noteq> []"
    and c: "[scenario_point\<lparr>label := 0\<rparr>] \<noteq> []"
    by (simp_all add: two_examples_def one_example_def)
  have "misclassification_rate constant_model two_examples = Inr (1 / 2)"
    using misclassification_rate_ratio [OF a, of constant_model]
    by (simp add: two_examples_def constant_model_def scenario_point_def)
  moreover have "misclassification_rate constant_model one_example = Inr 0"
    using misclassification_rate_ratio [OF b, of constant_model]
    by (simp add: one_example_def constant_model_def scenario_point_def)
  moreover have "misclassification_rate constant_model [scenario_point\<lparr>label := 0\<rparr>] = Inr 1"
    using misclassification_rate_ratio [OF c, of constant_model]
    by (simp add: constant_model_def scenario_point_def)
  ultimately show ?thesis using a by simp
qed

subsection \<open>Loops and sequencing\<close>

lemma and_then_Inr [simp]: "and_then (Inr v) f = f v"
  by (simp add: and_then_def)

lemma and_then_Inl [simp]: "and_then (Inl e) f = Inl e"
  by (simp add: and_then_def)

lemma and_then_eq_Inr:
  "and_then m f = Inr r \<longleftrightarrow> (\<exists>v. m = Inr v \<and> f v = Inr r)"
  by (cases m) simp_all

lemma and_then_eq_Inl:
  "and_then m f = Inl e \<longleftrightarrow> m = Inl e \<or> (\<exists>v. m = Inr v \<and> f v = Inl e)"
  by (cases m) simp_all

lemma for_each_append:
  "for_each body (xs @ ys) s = and_then (for_each body xs s) (for_each body ys)"
  by (induction xs arbitrary: s) (auto simp: and_then_def split: sum.splits)

lemma for_each_snoc:
  "for_each body (xs @ [x]) s = and_then (for_each body xs s) (body x)"
proof -
  have "for_each body [x] = body x"
    by (rule ext) (simp add: and_then_def split: sum.splits)
  then show ?thesis
    by (simp add: for_each_append)
qed

lemma for_each_map:
  "for_each body (map f xs) s = for_each (\<lambda>x. body (f x)) xs s"
  by (induction xs arbitrary: s) (auto simp: and_then_def split: sum.splits)

lemma for_each_nested:
  "for_each (\<lambda>a. for_each (body a) ys) xs s =
   for_each (\<lambda>q. body (fst q) (snd q)) (List.product xs ys) s"
  by (induction xs arbitrary: s)
    (auto simp: for_each_append for_each_map and_then_def split: sum.splits)

text \<open>The nested loops of the sweep are one loop over the pairs of trial and depth.\<close>

lemma sweep_flat:
  "sweep randomSplit trainClassifier lp g =
   for_each (\<lambda>q. sweep_iteration randomSplit trainClassifier lp (fst q) (snd q))
     (List.product (py_range 0 30) (py_range 2 8)) (g, [])"
  unfolding sweep_def by (rule for_each_nested)

lemma for_each_Inl:
  assumes "for_each body xs s = Inl e"
  shows "\<exists>x \<in> set xs. \<exists>s'. body x s' = Inl e"
  using assms
proof (induction xs arbitrary: s)
  case Nil
  then show ?case by simp
next
  case (Cons x xs)
  then show ?case
    by (cases "body x s") auto
qed

lemma length_sweep_pairs: "length (List.product (py_range 0 30) (py_range 2 8)) = 180"
  by (simp add: py_range_def)

lemma py_range_nth:
  assumes "a + int k < b"
  shows "py_range a b ! k = a + int k"
  unfolding py_range_def using assms by (intro nth_upto) simp

lemma length_py_range: "length (py_range a b) = nat (b - a)"
  by (simp add: py_range_def)

text \<open>Iteration \<open>k\<close> of the nested loops has trial \<open>k div 6\<close> and depth candidate \<open>2 + k mod 6\<close>.\<close>

lemma sweep_pairs_nth:
  assumes "k < 180"
  shows "List.product (py_range 0 30) (py_range 2 8) ! k = (int (k div 6), 2 + int (k mod 6))"
proof -
  have "k div 6 < 30" and "k mod 6 < 6"
    using assms by simp_all
  then have "py_range 0 30 ! (k div 6) = int (k div 6)"
    and "py_range 2 8 ! (k mod 6) = 2 + int (k mod 6)"
    by (simp_all add: py_range_nth)
  then show ?thesis
    using assms by (simp add: product_nth length_py_range)
qed

subsection \<open>One iteration\<close>

text \<open>A successful iteration advances the generator and appends the row of the iteration.\<close>

lemma sweep_iteration_Inr:
  assumes "sweep_iteration randomSplit trainClassifier lp obs max_depth (g, val_dat)
    = Inr (g', val_dat')"
  shows "g' = snd (randomSplit g [8 / 10, 2 / 10] lp) \<and>
    (\<exists>r. val_dat' = val_dat @ [r] \<and>
       iteration_row randomSplit trainClassifier lp g (obs, max_depth) r)"
  using assms unfolding sweep_iteration_def iteration_row_def Let_def
  by (auto split: prod.splits option.splits sum.splits)

text \<open>A failing iteration advances the generator and leaves the table as it found it.\<close>

lemma sweep_iteration_Inl:
  assumes "sweep_iteration randomSplit trainClassifier lp obs max_depth (g, val_dat)
    = Inl (e, s')"
  shows "s' = (snd (randomSplit g [8 / 10, 2 / 10] lp), val_dat)"
  using assms unfolding sweep_iteration_def Let_def
  by (auto split: prod.splits option.splits sum.splits)

lemma sweep_iteration_succeeds:
  "(\<exists>s'. sweep_iteration randomSplit trainClassifier lp obs max_depth (g, val_dat) = Inr s')
   \<longleftrightarrow> iteration_succeeds randomSplit trainClassifier lp g max_depth"
  unfolding sweep_iteration_def iteration_succeeds_def Let_def
  by (auto simp: misclassification_rate_eq truediv_def split: prod.splits option.splits)

subsection \<open>Division by zero\<close>

lemma sweep_iteration_no_zero_division:
  assumes "randomSplit g [8 / 10, 2 / 10] lp = ((lp_train, lp_val), g')"
    and "lp_train \<noteq> []" and "lp_val \<noteq> []"
  shows "sweep_iteration randomSplit trainClassifier lp obs max_depth (g, val_dat)
    \<noteq> Inl (ZeroDivisionError, s)"
  using assms unfolding sweep_iteration_def Let_def
  by (auto simp: misclassification_rate_Inl split: option.splits sum.splits)

lemma sweep_no_zero_division:
  assumes "\<forall>g. fst (fst (randomSplit g [8 / 10, 2 / 10] lp)) \<noteq> [] \<and>
        snd (fst (randomSplit g [8 / 10, 2 / 10] lp)) \<noteq> []"
  shows "sweep randomSplit trainClassifier lp g0 \<noteq> Inl (ZeroDivisionError, s)"
proof
  assume "sweep randomSplit trainClassifier lp g0 = Inl (ZeroDivisionError, s)"
  then obtain obs max_depth st where
    "sweep_iteration randomSplit trainClassifier lp obs max_depth st
      = Inl (ZeroDivisionError, s)"
    unfolding sweep_flat by (auto dest!: for_each_Inl)
  moreover obtain g val_dat where "st = (g, val_dat)"
    by (cases st)
  moreover obtain lp_train lp_val g' where
    "randomSplit g [8 / 10, 2 / 10] lp = ((lp_train, lp_val), g')"
    by (metis surj_pair)
  ultimately show False
    using sweep_iteration_no_zero_division [of randomSplit g lp lp_train lp_val g']
      assms [rule_format, of g] by auto
qed

lemma first_rest_split_nonempty:
  "\<forall>g. fst (fst (first_rest_split g [8 / 10, 2 / 10] two_examples)) \<noteq> [] \<and>
      snd (fst (first_rest_split g [8 / 10, 2 / 10] two_examples)) \<noteq> []"
  by (simp add: first_rest_split_def two_examples_def)

text \<open>
  Claim C4. \<^verbatim>\<open>misclassification_rate\<close> fails exactly when the partition it is given is
  empty, and the failure is the division by zero. An iteration of the sweep whose split
  gives two non-empty partitions does not end in that error, and neither does a sweep all
  of whose splits give non-empty partitions.
\<close>

theorem zero_division_iff_empty:
  "(misclassification_rate model examples = Inl ZeroDivisionError \<longleftrightarrow> examples = []) \<and>
   (\<forall>e. misclassification_rate model examples = Inl e \<longrightarrow> e = ZeroDivisionError) \<and>
   (randomSplit g [8 / 10, 2 / 10] lp = ((lp_train, lp_val), g') \<longrightarrow>
      lp_train \<noteq> [] \<longrightarrow> lp_val \<noteq> [] \<longrightarrow>
      (\<forall>s. sweep_iteration randomSplit trainClassifier lp obs max_depth (g, val_dat)
         \<noteq> Inl (ZeroDivisionError, s))) \<and>
   ((\<forall>g. fst (fst (randomSplit g [8 / 10, 2 / 10] lp)) \<noteq> [] \<and>
         snd (fst (randomSplit g [8 / 10, 2 / 10] lp)) \<noteq> []) \<longrightarrow>
      (\<forall>s. sweep randomSplit trainClassifier lp g0 \<noteq> Inl (ZeroDivisionError, s)))"
  using sweep_iteration_no_zero_division [of randomSplit g lp lp_train lp_val g']
    sweep_no_zero_division [of randomSplit lp]
  by (simp add: misclassification_rate_Inl)

theorem zero_division_iff_empty_witness:
  "misclassification_rate constant_model [] = Inl ZeroDivisionError \<and>
   misclassification_rate constant_model two_examples \<noteq> Inl ZeroDivisionError \<and>
   (\<forall>s. sweep_iteration first_rest_split constant_trainer two_examples 0 2 ((), [])
      \<noteq> Inl (ZeroDivisionError, s)) \<and>
   (\<forall>s. sweep first_rest_split constant_trainer two_examples ()
      \<noteq> Inl (ZeroDivisionError, s))"
proof -
  have sp: "first_rest_split () [8 / 10, 2 / 10] two_examples =
      (([scenario_point], [scenario_point\<lparr>label := 0\<rparr>]), ())"
    by (simp add: first_rest_split_def two_examples_def)
  have ne: "two_examples \<noteq> []"
    by (simp add: two_examples_def)
  show ?thesis
    using zero_division_iff_empty [where model = constant_model and examples = "[]"
        and randomSplit = first_rest_split and g = "()" and lp = two_examples
        and lp_train = "[scenario_point]" and lp_val = "[scenario_point\<lparr>label := 0\<rparr>]"
        and g' = "()" and trainClassifier = constant_trainer and obs = 0 and max_depth = 2
        and val_dat = "[]" and ?g0.0 = "()"]
      zero_division_iff_empty [where model = constant_model and examples = two_examples
        and randomSplit = first_rest_split and g = "()" and lp = two_examples
        and lp_train = "[scenario_point]" and lp_val = "[scenario_point\<lparr>label := 0\<rparr>]"
        and g' = "()" and trainClassifier = constant_trainer and obs = 0 and max_depth = 2
        and val_dat = "[]" and ?g0.0 = "()"]
      sp ne first_rest_split_nonempty
    by simp
qed

subsection \<open>The result table\<close>

text \<open>
  A loop over the pairs \<open>qs\<close> that starts with the empty table and runs to its end leaves
  the generator after \<open>length qs\<close> splits and one row per pair, in order.
\<close>

lemma loop_Inr:
  assumes "for_each (\<lambda>q. sweep_iteration randomSplit trainClassifier lp (fst q) (snd q))
      qs (g, []) = Inr (g', val_dat)"
  shows "g' = generator_before randomSplit lp g (length qs) \<and>
    length val_dat = length qs \<and>
    (\<forall>j < length qs. iteration_row randomSplit trainClassifier lp
       (generator_before randomSplit lp g j) (qs ! j) (val_dat ! j))"
  using assms
proof (induction qs arbitrary: g' val_dat rule: rev_induct)
  case Nil
  then show ?case by simp
next
  case (snoc q qs)
  from snoc.prems obtain g1 rows1 where
    before: "for_each (\<lambda>q. sweep_iteration randomSplit trainClassifier lp (fst q) (snd q))
      qs (g, []) = Inr (g1, rows1)"
    and step: "sweep_iteration randomSplit trainClassifier lp (fst q) (snd q) (g1, rows1)
      = Inr (g', val_dat)"
    by (auto simp: for_each_snoc and_then_eq_Inr)
  note ih = snoc.IH [OF before]
  from sweep_iteration_Inr [OF step] obtain r where
    g': "g' = snd (randomSplit g1 [8 / 10, 2 / 10] lp)"
    and rows: "val_dat = rows1 @ [r]"
    and r: "iteration_row randomSplit trainClassifier lp g1 (fst q, snd q) r"
    by blast
  have "g' = generator_before randomSplit lp g (length (qs @ [q]))"
    using g' ih by simp
  moreover have "length val_dat = length (qs @ [q])"
    using rows ih by simp
  moreover have "iteration_row randomSplit trainClassifier lp
       (generator_before randomSplit lp g j) ((qs @ [q]) ! j) (val_dat ! j)"
    if "j < length (qs @ [q])" for j
  proof (cases "j < length qs")
    case True
    then show ?thesis
      using ih rows by (simp add: nth_append)
  next
    case False
    then have "j = length qs"
      using that by simp
    then show ?thesis
      using ih rows r by (simp add: nth_append)
  qed
  ultimately show ?case by blast
qed

text \<open>
  A loop that stops with an exception leaves the rows of the iterations before the failing
  one, and the failing one is the iteration right after them.
\<close>

lemma loop_Inl:
  assumes "for_each (\<lambda>q. sweep_iteration randomSplit trainClassifier lp (fst q) (snd q))
      qs (g, []) = Inl (e, (g', val_dat))"
  shows "length val_dat < length qs \<and>
    (\<forall>j < length val_dat. iteration_row randomSplit trainClassifier lp
       (generator_before randomSplit lp g j) (qs ! j) (val_dat ! j)) \<and>
    sweep_iteration randomSplit trainClassifier lp
      (fst (qs ! length val_dat)) (snd (qs ! length val_dat))
      (generator_before randomSplit lp g (length val_dat), val_dat) = Inl (e, (g', val_dat))"
  using assms
proof (induction qs rule: rev_induct)
  case Nil
  then show ?case by simp
next
  case (snoc q qs)
  let ?body = "\<lambda>q. sweep_iteration randomSplit trainClassifier lp (fst q) (snd q)"
  from snoc.prems consider
    (earlier) "for_each ?body qs (g, []) = Inl (e, (g', val_dat))"
    | (last) g1 rows1 where "for_each ?body qs (g, []) = Inr (g1, rows1)"
      and "sweep_iteration randomSplit trainClassifier lp (fst q) (snd q) (g1, rows1)
        = Inl (e, (g', val_dat))"
    by (auto simp: for_each_snoc and_then_eq_Inl)
  then show ?case
  proof cases
    case earlier
    note ih = snoc.IH [OF earlier]
    then have "length val_dat < length qs"
      by simp
    then show ?thesis
      using ih by (simp add: nth_append)
  next
    case last
    note ran = loop_Inr [OF last(1)]
    have "val_dat = rows1"
      using sweep_iteration_Inl [OF last(2)] by simp
    then show ?thesis
      using ran last(2) by (simp add: nth_append)
  qed
qed

text \<open>A loop runs to its end exactly when every one of its iterations succeeds.\<close>

lemma loop_succeeds:
  "(\<exists>s'. for_each (\<lambda>q. sweep_iteration randomSplit trainClassifier lp (fst q) (snd q))
      qs (g, []) = Inr s') \<longleftrightarrow>
   (\<forall>j < length qs. iteration_succeeds randomSplit trainClassifier lp
      (generator_before randomSplit lp g j) (snd (qs ! j)))"
proof (induction qs rule: rev_induct)
  case Nil
  show ?case by simp
next
  case (snoc q qs)
  let ?body = "\<lambda>q. sweep_iteration randomSplit trainClassifier lp (fst q) (snd q)"
  let ?ok = "\<lambda>qs j. iteration_succeeds randomSplit trainClassifier lp
      (generator_before randomSplit lp g j) (snd (qs ! j))"
  show ?case
  proof
    assume "\<exists>s'. for_each ?body (qs @ [q]) (g, []) = Inr s'"
    then obtain g1 rows1 s' where
      before: "for_each ?body qs (g, []) = Inr (g1, rows1)"
      and step: "sweep_iteration randomSplit trainClassifier lp (fst q) (snd q) (g1, rows1)
        = Inr s'"
      by (auto simp: for_each_snoc and_then_eq_Inr)
    have all: "\<forall>j < length qs. ?ok qs j"
      using snoc.IH before by blast
    have "g1 = generator_before randomSplit lp g (length qs)"
      using loop_Inr [OF before] by simp
    then have "?ok (qs @ [q]) (length qs)"
      using step sweep_iteration_succeeds [of randomSplit trainClassifier lp "fst q" "snd q"
          g1 rows1]
      by auto
    then show "\<forall>j < length (qs @ [q]). ?ok (qs @ [q]) j"
      using all by (auto simp: nth_append less_Suc_eq)
  next
    assume all: "\<forall>j < length (qs @ [q]). ?ok (qs @ [q]) j"
    then have "\<forall>j < length qs. ?ok qs j"
      by (auto simp: nth_append less_Suc_eq)
    then obtain g1 rows1 where
      before: "for_each ?body qs (g, []) = Inr (g1, rows1)"
      using snoc.IH by auto
    have g1: "g1 = generator_before randomSplit lp g (length qs)"
      using loop_Inr [OF before] by simp
    have "?ok (qs @ [q]) (length qs)"
      using all [rule_format, of "length qs"] by simp
    then have "iteration_succeeds randomSplit trainClassifier lp g1 (snd q)"
      using g1 by simp
    then obtain s' where
      "sweep_iteration randomSplit trainClassifier lp (fst q) (snd q) (g1, rows1) = Inr s'"
      using sweep_iteration_succeeds [of randomSplit trainClassifier lp "fst q" "snd q"
          g1 rows1]
      by auto
    then show "\<exists>s'. for_each ?body (qs @ [q]) (g, []) = Inr s'"
      using before by (simp add: for_each_snoc)
  qed
qed

text \<open>
  Claim C2 says that the sweep over the depth candidates 2 to 7 with 30 trials produces a
  table of exactly 180 rows. It fails for a dataset of one example: whichever partition
  gets the example, the other is empty, and the first iteration fails. Here the example
  goes to the train partition, the validation error raises the division by zero, and the
  table is left empty.
\<close>

theorem sweep_single_example_fails:
  "sweep all_train_split constant_trainer one_example () = Inl (ZeroDivisionError, ((), []))"
  by (simp add: sweep_def py_range_def upto.simps sweep_iteration_def all_train_split_def
      constant_trainer_def one_example_def misclassification_rate_def truediv_def)

text \<open>
  Claim C2, amended. Whenever the sweep over the depth candidates 2 to 7 with 30 trials
  runs to its end, the table has exactly 180 rows, one per pair of trial and depth
  candidate in the order of the nested loops (trials outside, depths inside: row \<open>k\<close>
  belongs to trial \<open>k div 6\<close> and depth candidate \<open>2 + k mod 6\<close>), and each row holds the
  trial index, the depth and the node count of the model trained in that iteration, and
  its training and validation error. The sweep runs to its end exactly when, in each of
  its 180 iterations, the split gives two non-empty partitions and the trainer returns a
  model. An iteration that fails stops the sweep with its error; the table then keeps the
  rows of the iterations before it, fewer than 180, and gets no further row.
\<close>

theorem sweep_table:
  "(\<forall>g' val_dat. sweep randomSplit trainClassifier lp g = Inr (g', val_dat) \<longrightarrow>
      length val_dat = 180 \<and>
      (\<forall>k < 180. iteration_row randomSplit trainClassifier lp
         (generator_before randomSplit lp g k)
         (int (k div 6), 2 + int (k mod 6)) (val_dat ! k))) \<and>
   ((\<exists>g' val_dat. sweep randomSplit trainClassifier lp g = Inr (g', val_dat)) \<longleftrightarrow>
      (\<forall>k < 180. iteration_succeeds randomSplit trainClassifier lp
         (generator_before randomSplit lp g k) (2 + int (k mod 6)))) \<and>
   (\<forall>e g' val_dat. sweep randomSplit trainClassifier lp g = Inl (e, (g', val_dat)) \<longrightarrow>
      length val_dat < 180 \<and>
      (\<forall>k < length val_dat. iteration_row randomSplit trainClassifier lp
         (generator_before randomSplit lp g k)
         (int (k div 6), 2 + int (k mod 6)) (val_dat ! k)) \<and>
      sweep_iteration randomSplit trainClassifier lp
        (int (length val_dat div 6)) (2 + int (length val_dat mod 6))
        (generator_before randomSplit lp g (length val_dat), val_dat)
        = Inl (e, (g', val_dat)))"
proof (intro conjI allI impI)
  fix g' val_dat
  assume "sweep randomSplit trainClassifier lp g = Inr (g', val_dat)"
  note rows = loop_Inr [OF this [unfolded sweep_flat], unfolded length_sweep_pairs]
  show "length val_dat = 180"
    using rows by simp
  fix k :: nat
  assume "k < 180"
  then show "iteration_row randomSplit trainClassifier lp
      (generator_before randomSplit lp g k) (int (k div 6), 2 + int (k mod 6)) (val_dat ! k)"
    using rows sweep_pairs_nth [of k] by auto
next
  let ?qs = "List.product (py_range 0 30) (py_range 2 8)"
  have "(\<exists>g' val_dat. sweep randomSplit trainClassifier lp g = Inr (g', val_dat)) \<longleftrightarrow>
      (\<exists>s'. for_each (\<lambda>q. sweep_iteration randomSplit trainClassifier lp (fst q) (snd q))
         ?qs (g, []) = Inr s')"
    unfolding sweep_flat by auto
  also have "\<dots> \<longleftrightarrow>
      (\<forall>k < 180. iteration_succeeds randomSplit trainClassifier lp
         (generator_before randomSplit lp g k) (snd (?qs ! k)))"
    by (rule loop_succeeds [of randomSplit trainClassifier lp ?qs g,
          unfolded length_sweep_pairs])
  also have "\<dots> \<longleftrightarrow>
      (\<forall>k < 180. iteration_succeeds randomSplit trainClassifier lp
         (generator_before randomSplit lp g k) (2 + int (k mod 6)))"
    by (simp add: sweep_pairs_nth)
  finally show "(\<exists>g' val_dat. sweep randomSplit trainClassifier lp g = Inr (g', val_dat)) \<longleftrightarrow>
      (\<forall>k < 180. iteration_succeeds randomSplit trainClassifier lp
         (generator_before randomSplit lp g k) (2 + int (k mod 6)))" .
next
  fix e g' val_dat
  assume "sweep randomSplit trainClassifier lp g = Inl (e, (g', val_dat))"
  note kept = loop_Inl [OF this [unfolded sweep_flat], unfolded length_sweep_pairs]
  show short: "length val_dat < 180"
    using kept by simp
  show "sweep_iteration randomSplit trainClassifier lp
        (int (length val_dat div 6)) (2 + int (length val_dat mod 6))
        (generator_before randomSplit lp g (length val_dat), val_dat)
        = Inl (e, (g', val_dat))"
    using kept sweep_pairs_nth [OF short] by simp
  fix k :: nat
  assume "k < length val_dat"
  then show "iteration_row randomSplit trainClassifier lp
      (generator_before randomSplit lp g k) (int (k div 6), 2 + int (k mod 6)) (val_dat ! k)"
    using kept short sweep_pairs_nth [of k] by auto
qed

lemma first_rest_split_succeeds:
  "iteration_succeeds first_rest_split constant_trainer two_examples g d"
  by (simp add: iteration_succeeds_def first_rest_split_def constant_trainer_def
      two_examples_def)

lemma shallow_sweep_keeps_three_rows:
  "sweep first_rest_split shallow_trainer two_examples () =
     Inl (TrainingFailure, ((),
       [\<lparr>col_obs = 0, col_max_depth = 0, col_num_nodes = 1, col_train_err = 0,
         col_val_err = 1\<rparr>,
        \<lparr>col_obs = 0, col_max_depth = 0, col_num_nodes = 1, col_train_err = 0,
         col_val_err = 1\<rparr>,
        \<lparr>col_obs = 0, col_max_depth = 0, col_num_nodes = 1, col_train_err = 0,
         col_val_err = 1\<rparr>]))"
  by (simp add: sweep_def py_range_def upto.simps sweep_iteration_def first_rest_split_def
      shallow_trainer_def constant_model_def two_examples_def scenario_point_def
      misclassification_rate_def truediv_def)

theorem sweep_table_witness:
  "(\<exists>g' val_dat. sweep first_rest_split constant_trainer two_examples () = Inr (g', val_dat) \<and>
      length val_dat = 180) \<and>
   (\<exists>val_dat. sweep first_rest_split shallow_trainer two_examples ()
        = Inl (TrainingFailure, ((), val_dat)) \<and>
      length val_dat = 3 \<and> length val_dat < 180)"
proof -
  have "\<exists>g' val_dat. sweep first_rest_split constant_trainer two_examples () = Inr (g', val_dat) \<and>
      length val_dat = 180"
    using sweep_table [of first_rest_split constant_trainer two_examples "()"]
      first_rest_split_succeeds
    by blast
  moreover have "\<exists>val_dat. sweep first_rest_split shallow_trainer two_examples ()
        = Inl (TrainingFailure, ((), val_dat)) \<and>
      length val_dat = 3 \<and> length val_dat < 180"
    using sweep_table [of first_rest_split shallow_trainer two_examples "()"]
      shallow_sweep_keeps_three_rows
    by simp
  ultimately show ?thesis by blast
qed

subsection \<open>The registry passed to the trainer\<close>

lemma german_cfi_valid: "categorical_indices_valid 20 german_cfi"
  by (simp add: categorical_indices_valid_def german_cfi_def)

lemma sweep_iteration_checked:
  "sweep_iteration randomSplit (checked 20 trainClassifier) lp obs max_depth s =
   sweep_iteration randomSplit trainClassifier lp obs max_depth s"
  unfolding sweep_iteration_def by (simp add: checked_def german_cfi_valid)

text \<open>
  Claim C7. Every key of the registry lies in the range from 0 up to but excluding 20 and
  every cardinality is at least 2; the keys are positions of every feature vector the
  transformer returns; and the sweep never calls the trainer with a key out of that range:
  putting any trainer behind a check that refuses such a call leaves the result of the
  sweep unchanged.
\<close>

theorem registry_indices_valid:
  "list_all (\<lambda>(i, n). 0 \<le> i \<and> i < 20 \<and> 2 \<le> n) german_cfi \<and>
   (\<forall>x p. german_lp x = Inr p \<longrightarrow>
      categorical_indices_valid (length (features p)) german_cfi) \<and>
   sweep randomSplit (checked 20 trainClassifier) lp g = sweep randomSplit trainClassifier lp g"
proof (intro conjI allI impI)
  show "list_all (\<lambda>(i, n). 0 \<le> i \<and> i < 20 \<and> 2 \<le> n) german_cfi"
    by (simp add: german_cfi_def)
  show "sweep randomSplit (checked 20 trainClassifier) lp g = sweep randomSplit trainClassifier lp g"
    unfolding sweep_def sweep_iteration_checked ..
next
  fix x p
  assume "german_lp x = Inr p"
  then have "length (features p) = 20"
    using german_lp_present [OF german_lp_Inr_present] by fastforce
  then show "categorical_indices_valid (length (features p)) german_cfi"
    using german_cfi_valid by simp
qed

theorem registry_indices_valid_witness:
  "list_all (\<lambda>(i, n). 0 \<le> i \<and> i < 20 \<and> 2 \<le> n) german_cfi \<and>
   categorical_indices_valid (length (features scenario_point)) german_cfi \<and>
   sweep first_rest_split (checked 20 constant_trainer) two_examples () =
     sweep first_rest_split constant_trainer two_examples ()"
proof -
  have "german_lp scenario_record = Inr scenario_point"
    by (simp add: german_lp_def scenario_record_def scenario_point_def and_then_def
        getitem_def)
  then show ?thesis
    using registry_indices_valid [of first_rest_split constant_trainer two_examples "()"]
    by blast
qed

subsection \<open>The random split\<close>

lemma random_split_lengths:
  "length (fst (random_split uniform examples train_fraction seed)) +
   length (snd (random_split uniform examples train_fraction seed)) = length examples"
proof -
  let ?drawn = "zip (map (uniform seed) [0..<length examples]) examples"
  let ?P = "\<lambda>(u, e). u < train_fraction"
  have "length (filter ?P ?drawn) + length (filter (Not \<circ> ?P) ?drawn) = length ?drawn"
    unfolding comp_def by (rule sum_length_filter_compl)
  then show ?thesis
    by (simp add: random_split_def Let_def)
qed

lemma drawn_fst:
  "p \<in> set (zip (map (uniform seed) ns) examples) \<Longrightarrow> \<exists>i. fst p = uniform seed i"
  by (auto simp: set_zip)

lemma random_split_below:
  assumes "\<forall>i. uniform seed i < train_fraction"
  shows "random_split uniform examples train_fraction seed = (examples, [])"
proof -
  let ?drawn = "zip (map (uniform seed) [0..<length examples]) examples"
  let ?P = "\<lambda>(u, e). u < train_fraction"
  have all: "\<forall>p \<in> set ?drawn. ?P p"
    using assms by (auto dest: drawn_fst)
  have "filter ?P ?drawn = ?drawn"
    using all by (rule filter_True)
  moreover have "filter (Not \<circ> ?P) ?drawn = []"
    using all by (simp add: filter_empty_conv)
  moreover have "map snd ?drawn = examples"
    by (simp add: map_snd_zip)
  ultimately show ?thesis
    by (simp add: random_split_def Let_def)
qed

lemma random_split_above:
  assumes "\<forall>i. \<not> uniform seed i < train_fraction"
  shows "random_split uniform examples train_fraction seed = ([], examples)"
proof -
  let ?drawn = "zip (map (uniform seed) [0..<length examples]) examples"
  let ?P = "\<lambda>(u, e). u < train_fraction"
  have none: "\<forall>p \<in> set ?drawn. \<not> ?P p"
    using assms by (auto dest: drawn_fst)
  have "filter ?P ?drawn = []"
    using none by (simp add: filter_empty_conv)
  moreover have "filter (Not \<circ> ?P) ?drawn = ?drawn"
    using none by (intro filter_True) simp
  moreover have "map snd ?drawn = examples"
    by (simp add: map_snd_zip)
  ultimately show ?thesis
    by (simp add: random_split_def Let_def)
qed

lemma random_split_all_train:
  "random_split (\<lambda>seed i. if seed = 0 then 0 else 1) examples (8 / 10) 0 = (examples, [])"
  by (rule random_split_below) simp

lemma random_split_all_val:
  "random_split (\<lambda>seed i. if seed = 0 then 0 else 1) examples (8 / 10) 1 = ([], examples)"
  by (rule random_split_above) simp

text \<open>
  Claim C9. For a dataset of size N, one call of \<^verbatim>\<open>random_split\<close> with fraction 0.8 gives
  two partitions whose sizes add up to N, whatever the draws. Calls with different draws
  may give different partitions: for every non-empty dataset there are a generator and two
  seeds whose partitions differ.
\<close>

theorem random_split_total_size:
  "length (fst (random_split uniform examples (8 / 10) seed)) +
   length (snd (random_split uniform examples (8 / 10) seed)) = length examples \<and>
   (examples \<noteq> [] \<longrightarrow>
      (\<exists>uniform' seed1 seed2.
         random_split uniform' examples (8 / 10) seed1
           \<noteq> random_split uniform' examples (8 / 10) seed2))"
proof (intro conjI impI)
  show "length (fst (random_split uniform examples (8 / 10) seed)) +
   length (snd (random_split uniform examples (8 / 10) seed)) = length examples"
    by (rule random_split_lengths)
next
  assume "examples \<noteq> []"
  then have "random_split (\<lambda>seed i. if seed = 0 then 0 else 1) examples (8 / 10) 0
      \<noteq> random_split (\<lambda>seed i. if seed = 0 then 0 else 1) examples (8 / 10) 1"
    unfolding random_split_all_train random_split_all_val by simp
  then show "\<exists>uniform' seed1 seed2.
         random_split uniform' examples (8 / 10) seed1
           \<noteq> random_split uniform' examples (8 / 10) seed2"
    by blast
qed

theorem random_split_total_size_witness:
  "length (fst (random_split (\<lambda>seed i. if seed = 0 then 0 else 1) two_examples (8 / 10) 0)) +
   length (snd (random_split (\<lambda>seed i. if seed = 0 then 0 else 1) two_examples (8 / 10) 0)) = 2 \<and>
   (\<exists>uniform' seed1 seed2.
      random_split uniform' two_examples (8 / 10) seed1
        \<noteq> random_split uniform' two_examples (8 / 10) seed2)"
proof -
  have "two_examples \<noteq> []" and "length two_examples = 2"
    by (simp_all add: two_examples_def)
  then show ?thesis
    using random_split_total_size
      [of "\<lambda>seed i. if seed = 0 then 0 else 1" two_examples 0] by simp
qed

end
